theory Spec2Isabelle
  imports Complex_Main
begin

section \<open>Values of the runtime\<close>

text \<open>
  The server (\<^verbatim>\<open>src/server.js\<close>) is an Express application with two working routes,
  \<^verbatim>\<open>/info\<close> and \<^verbatim>\<open>/download\<close>, and four helpers. A JavaScript string is modelled as
  a \<^typ>\<open>string\<close>: one \<^typ>\<open>char\<close> stands for one code unit below 256. Query parameters
  are strings or absent (\<open>None\<close> is \<^verbatim>\<open>undefined\<close>).
\<close>

text \<open>What \<^verbatim>\<open>JSON.parse\<close> returns. A number carries the value of the parsed double.\<close>

datatype json =
    JNull
  | JBool bool
  | JNum rat
  | JStr string
  | JArr "json list"
  | JObj "(string \<times> json) list"

text \<open>ToBoolean, for the operands of \<^verbatim>\<open>||\<close>.\<close>

fun truthy :: "json \<Rightarrow> bool" where
  "truthy JNull = False"
| "truthy (JBool b) = b"
| "truthy (JNum n) = (n \<noteq> 0)"
| "truthy (JStr s) = (s \<noteq> [])"
| "truthy (JArr xs) = True"
| "truthy (JObj kvs) = True"

text \<open>\<^verbatim>\<open>v || d\<close> where \<open>v\<close> may be \<^verbatim>\<open>undefined\<close>.\<close>

definition or_else :: "json option \<Rightarrow> json \<Rightarrow> json" where
  "or_else v d = (case v of None \<Rightarrow> d | Some j \<Rightarrow> if truthy j then j else d)"

text \<open>
  Reading one of the six metadata properties of a parsed value other than \<^verbatim>\<open>null\<close>:
  an object (its properties listed once each) gives the stored value or \<^verbatim>\<open>undefined\<close>,
  every other value gives \<^verbatim>\<open>undefined\<close>. (Reading a property of \<^verbatim>\<open>null\<close> throws; the
  caller handles it.)
\<close>

fun get_prop :: "json \<Rightarrow> string \<Rightarrow> json option" where
  "get_prop (JObj kvs) k = map_of kvs k"
| "get_prop j k = None"

text \<open>What the code can throw: its own \<^verbatim>\<open>new Error(msg)\<close>, and the runtime's errors.\<close>

datatype thrown =
    Error string
  | TypeError
  | FsError string
  | HeaderError string

text \<open>
  How a child process ends, as seen by the promise that wraps it: the \<^verbatim>\<open>error\<close> event
  with its message, or the \<^verbatim>\<open>close\<close> event with the exit code (\<^verbatim>\<open>null\<close> after a signal),
  the collected standard output and the collected standard error.
\<close>

datatype proc_exit =
    SpawnFailed string
  | Closed "int option" string string

text \<open>
  What becomes of the read stream piped into the response: the \<^verbatim>\<open>end\<close> event; the
  \<^verbatim>\<open>error\<close> event together with the value of \<^verbatim>\<open>res.headersSent\<close> at that moment; or
  neither, when the response is closed first (the client went away) and the stream is left
  unpiped, so that neither of the two handlers ever runs.
\<close>

datatype stream_result = StreamEnd | StreamError bool | ResponseClosed

datatype hval = HStr string | HNum nat

type_synonym headers = "(string \<times> hval) list"

section \<open>The platform and the world\<close>

text \<open>
  Everything the code takes from Node, the operating system and the two external tools is a
  field of a \<open>platform\<close>: the environment variables, \<^verbatim>\<open>new URL(u).hostname\<close> (\<open>None\<close>
  when the constructor throws), \<^verbatim>\<open>JSON.parse\<close> (\<open>None\<close> when it throws), ToNumber on a
  value that is not a number (\<open>None\<close> is NaN), the text of \<^verbatim>\<open>parseInt(s)\<close> in a template,
  \<^verbatim>\<open>os.tmpdir()\<close>, \<^verbatim>\<open>path.join\<close>, the text of
  \<^verbatim>\<open>${Date.now()}_${Math.random().toString(36).slice(2)}\<close> at its n-th evaluation in a
  request, the run of a child process (command, arguments and files before; exit and files
  after), whether \<^verbatim>\<open>res.setHeader\<close> accepts a header, the fate of the read stream of a
  file, whether \<^verbatim>\<open>fs.unlink\<close> of a path is refused (the promise rejects and the file
  stays where it is), and the message of an error of the runtime.
\<close>

record platform =
  env_YT_DLP_PATH :: "string option"
  env_FFMPEG_PATH :: "string option"
  url_hostname :: "string \<Rightarrow> string option"
  json_parse :: "string \<Rightarrow> json option"
  to_number :: "json \<Rightarrow> rat option"
  parse_int_text :: "string \<Rightarrow> string"
  os_tmpdir :: string
  path_join :: "string \<Rightarrow> string \<Rightarrow> string"
  fresh :: "nat \<Rightarrow> string"
  run :: "string \<Rightarrow> string list \<Rightarrow> (string \<rightharpoonup> nat) \<Rightarrow> proc_exit \<times> (string \<rightharpoonup> nat)"
  header_ok :: "string \<Rightarrow> hval \<Rightarrow> bool"
  read_stream :: "string \<Rightarrow> stream_result"
  unlink_refused :: "string \<Rightarrow> bool"
  runtime_message :: "thrown \<Rightarrow> string"

text \<open>
  The world a request runs in: the files on disk (path to size in bytes) and the log of the
  calls of \<^verbatim>\<open>spawn\<close> made so far (command and arguments).
\<close>

record world =
  files :: "string \<rightharpoonup> nat"
  spawned :: "(string \<times> string list) list"

definition MAX_DURATION :: rat where
  "MAX_DURATION = 3600"

text \<open>\<^verbatim>\<open>process.env.X || dflt\<close>: an unset or empty variable gives the default.\<close>

definition env_or :: "string option \<Rightarrow> string \<Rightarrow> string" where
  "env_or v dflt = (case v of None \<Rightarrow> dflt | Some s \<Rightarrow> if s = [] then dflt else s)"

definition YT_DLP_PATH :: "platform \<Rightarrow> string" where
  "YT_DLP_PATH pf = env_or (env_YT_DLP_PATH pf) ''yt-dlp''"

definition FFMPEG_PATH :: "platform \<Rightarrow> string" where
  "FFMPEG_PATH pf = env_or (env_FFMPEG_PATH pf) ''ffmpeg''"

text \<open>\<^verbatim>\<open>spawn(cmd, args)\<close>: the call is logged, the tool runs and may change the files.\<close>

definition spawn :: "platform \<Rightarrow> string \<Rightarrow> string list \<Rightarrow> world \<Rightarrow> proc_exit \<times> world" where
  "spawn pf cmd args w =
     (case run pf cmd args (files w) of
        (r, fs) \<Rightarrow> (r, w\<lparr>files := fs, spawned := spawned w @ [(cmd, args)]\<rparr>))"

text \<open>
  \<^verbatim>\<open>fs.unlink(p)\<close> at its three call sites. Each of them swallows or logs a rejection,
  so nothing is thrown: when the platform refuses the unlink the world stays as it is, and
  otherwise the path is gone afterwards (also when it was not there before).
\<close>

definition unlink :: "platform \<Rightarrow> string \<Rightarrow> world \<Rightarrow> world" where
  "unlink pf p w = (if unlink_refused pf p then w else w\<lparr>files := (files w)(p := None)\<rparr>)"

text \<open>\<^verbatim>\<open>error.message\<close>.\<close>

definition message :: "platform \<Rightarrow> thrown \<Rightarrow> string" where
  "message pf e = (case e of Error m \<Rightarrow> m | _ \<Rightarrow> runtime_message pf e)"

section \<open>Strings\<close>

text \<open>Search for a literal at every position: a regular expression of literals, unanchored.\<close>

fun literal_search :: "string \<Rightarrow> string \<Rightarrow> bool" where
  "literal_search p [] = (p = [])"
| "literal_search p (c # cs) = (take (length p) (c # cs) = p \<or> literal_search p cs)"

text \<open>\<^verbatim>\<open>/youtube\.com|youtu\.be/.test(h)\<close>.\<close>

definition youtube_pattern_test :: "string \<Rightarrow> bool" where
  "youtube_pattern_test h = (literal_search ''youtube.com'' h \<or> literal_search ''youtu.be'' h)"

text \<open>\<^verbatim>\<open>isValidYouTubeUrl\<close>: the \<^verbatim>\<open>catch\<close> turns a throwing constructor into \<^verbatim>\<open>false\<close>.\<close>

definition isValidYouTubeUrl :: "platform \<Rightarrow> string \<Rightarrow> bool" where
  "isValidYouTubeUrl pf u =
     (case url_hostname pf u of None \<Rightarrow> False | Some h \<Rightarrow> youtube_pattern_test h)"

text \<open>The character class \<^verbatim>\<open>[a-zA-Z0-9\-_ ]\<close>.\<close>

definition allowed_char :: "char \<Rightarrow> bool" where
  "allowed_char c =
     (let n = (of_char c :: nat) in
        (97 \<le> n \<and> n \<le> 122) \<or> (65 \<le> n \<and> n \<le> 90) \<or> (48 \<le> n \<and> n \<le> 57)
        \<or> n = 45 \<or> n = 95 \<or> n = 32)"

text \<open>
  The class \<^verbatim>\<open>\s\<close>, which is also what \<^verbatim>\<open>trim\<close> strips, on code units below 256:
  tab, line feed, vertical tab, form feed, carriage return, space, no-break space.
\<close>

definition is_space :: "char \<Rightarrow> bool" where
  "is_space c =
     (let n = (of_char c :: nat) in (9 \<le> n \<and> n \<le> 13) \<or> n = 32 \<or> n = 160)"

text \<open>\<^verbatim>\<open>.replace(/\s+/g, ' ')\<close>: every maximal run of white space becomes one space.\<close>

function collapse_spaces :: "string \<Rightarrow> string" where
  "collapse_spaces [] = []"
| "collapse_spaces (c # cs) =
     (if is_space c then CHR '' '' # collapse_spaces (dropWhile is_space cs)
      else c # collapse_spaces cs)"
  by pat_completeness auto
termination
  by (relation "measure length") (auto simp: length_dropWhile_le less_Suc_eq_le)

definition trim :: "string \<Rightarrow> string" where
  "trim s = rev (dropWhile is_space (rev (dropWhile is_space s)))"

definition sanitizeFilename :: "string \<Rightarrow> string" where
  "sanitizeFilename name =
     take 100 (trim (collapse_spaces (map (\<lambda>c. if allowed_char c then c else CHR ''_'') name)))"

text \<open>
  \<^verbatim>\<open>s.replace(pat, template)\<close> with a string pattern: the first occurrence is replaced,
  and in the template \<^verbatim>\<open>$$\<close>, \<^verbatim>\<open>$&\<close>, \<^verbatim>\<open>$`\<close> and \<^verbatim>\<open>$'\<close> stand for a dollar, the
  match, the text before it and the text after it.
\<close>

fun get_substitution :: "string \<Rightarrow> string \<Rightarrow> string \<Rightarrow> string \<Rightarrow> string" where
  "get_substitution m pre post [] = []"
| "get_substitution m pre post [c] = [c]"
| "get_substitution m pre post (c # d # rest) =
     (if c = CHR ''$'' then
        (if d = CHR ''$'' then CHR ''$'' # get_substitution m pre post rest
         else if d = CHR ''&'' then m @ get_substitution m pre post rest
         else if d = CHR 0x60 then pre @ get_substitution m pre post rest
         else if d = CHR 0x27 then post @ get_substitution m pre post rest
         else c # get_substitution m pre post (d # rest))
      else c # get_substitution m pre post (d # rest))"

fun split_at_first :: "string \<Rightarrow> string \<Rightarrow> string \<Rightarrow> (string \<times> string) option" where
  "split_at_first p acc [] = (if p = [] then Some (acc, []) else None)"
| "split_at_first p acc (c # cs) =
     (if take (length p) (c # cs) = p then Some (acc, drop (length p) (c # cs))
      else split_at_first p (acc @ [c]) cs)"

definition js_replace :: "string \<Rightarrow> string \<Rightarrow> string \<Rightarrow> string" where
  "js_replace pat template s =
     (case split_at_first pat [] s of
        None \<Rightarrow> s
      | Some (pre, post) \<Rightarrow> pre @ get_substitution pat pre post template @ post)"

section \<open>The helpers that run the tools\<close>

record video_info =
  info_id :: "json option"
  info_title :: "json option"
  info_duration :: "json option"
  info_thumbnail :: "json option"
  info_uploader :: "json option"
  info_upload_date :: "json option"

text \<open>
  \<^verbatim>\<open>getVideoInfo\<close>. The promise is settled by the first event of the process. After exit
  code 0 the \<^verbatim>\<open>try\<close> covers both \<^verbatim>\<open>JSON.parse\<close> and the six property reads, so a parsed
  \<^verbatim>\<open>null\<close> (whose properties cannot be read) is rejected like unparseable output.
\<close>

definition getVideoInfo :: "platform \<Rightarrow> string \<Rightarrow> world \<Rightarrow> (thrown + video_info) \<times> world" where
  "getVideoInfo pf u w =
     (case spawn pf (YT_DLP_PATH pf) [''--dump-json'', ''--no-warnings'', u] w of
        (SpawnFailed m, w1) \<Rightarrow> (Inl (Error (''yt-dlp error: '' @ m)), w1)
      | (Closed code out err, w1) \<Rightarrow>
          (if code \<noteq> Some 0 then (Inl (Error (''Failed to fetch video info: '' @ err)), w1)
           else (case json_parse pf out of
                   None \<Rightarrow> (Inl (Error ''Failed to parse video info''), w1)
                 | Some JNull \<Rightarrow> (Inl (Error ''Failed to parse video info''), w1)
                 | Some j \<Rightarrow>
                     (Inr \<lparr>info_id = get_prop j ''id'',
                           info_title = get_prop j ''title'',
                           info_duration = get_prop j ''duration'',
                           info_thumbnail = get_prop j ''thumbnail'',
                           info_uploader = get_prop j ''uploader'',
                           info_upload_date = get_prop j ''upload_date''\<rparr>, w1))))"

definition download_args ::
  "string \<Rightarrow> string \<Rightarrow> string \<Rightarrow> string \<Rightarrow> string \<Rightarrow> string \<Rightarrow> string \<Rightarrow> string list" where
  "download_args u format ext outputPath mode bitrate container =
     [''-f'', format, ''--merge-output-format'', ext]
     @ (if mode = ''audio'' \<and> container = ''mp3''
        then [''--extract-audio'', ''--audio-format'', ''mp3'', ''--audio-quality'', bitrate @ ''K'']
        else [])
     @ [''-o'', outputPath, u]"

text \<open>\<^verbatim>\<open>downloadVideo\<close>: \<^verbatim>\<open>fs.access(outputPath)\<close> succeeds when the file is there.\<close>

definition downloadVideo ::
  "platform \<Rightarrow> string \<Rightarrow> string \<Rightarrow> string \<Rightarrow> string \<Rightarrow> string \<Rightarrow> string \<Rightarrow> string \<Rightarrow> world
     \<Rightarrow> (thrown + unit) \<times> world" where
  "downloadVideo pf u format ext outputPath mode bitrate container w =
     (case spawn pf (YT_DLP_PATH pf)
             (download_args u format ext outputPath mode bitrate container) w of
        (SpawnFailed m, w1) \<Rightarrow> (Inl (Error (''yt-dlp error: '' @ m)), w1)
      | (Closed code out err, w1) \<Rightarrow>
          (if code \<noteq> Some 0 then (Inl (Error (''Download failed: '' @ err)), w1)
           else if files w1 outputPath \<noteq> None then (Inr (), w1)
           else (Inl (Error ''Downloaded file not found''), w1)))"

text \<open>A query parameter used as a condition: absent and empty are both false.\<close>

definition given :: "string option \<Rightarrow> bool" where
  "given v = (case v of None \<Rightarrow> False | Some s \<Rightarrow> s \<noteq> [])"

definition trim_args :: "string \<Rightarrow> string \<Rightarrow> string option \<Rightarrow> string option \<Rightarrow> string list" where
  "trim_args inputPath outputPath start end' =
     (if given start then [''-ss'', the start] else [])
     @ [''-i'', inputPath]
     @ (if given end' then [''-to'', the end'] else [])
     @ [''-c'', ''copy'', outputPath]"

definition trimVideo ::
  "platform \<Rightarrow> string \<Rightarrow> string \<Rightarrow> string option \<Rightarrow> string option \<Rightarrow> world
     \<Rightarrow> (thrown + unit) \<times> world" where
  "trimVideo pf inputPath outputPath start end' w =
     (case spawn pf (FFMPEG_PATH pf) (trim_args inputPath outputPath start end') w of
        (SpawnFailed m, w1) \<Rightarrow> (Inl (Error (''ffmpeg error: '' @ m)), w1)
      | (Closed code out err, w1) \<Rightarrow>
          (if code \<noteq> Some 0 then (Inl (Error (''Trim failed: '' @ err)), w1)
           else if files w1 outputPath \<noteq> None then (Inr (), w1)
           else (Inl (Error ''Trimmed file not found''), w1)))"

section \<open>The routes\<close>

text \<open>
  A response: \<^verbatim>\<open>res.json(info)\<close>; \<^verbatim>\<open>res.status(n).json({error: msg})\<close>; the headers and
  the file streamed to its end; the headers and a file whose stream did not reach its end
  (it failed after the headers were sent, or the response was closed first: a truncated
  body).
\<close>

datatype response =
    InfoReply video_info
  | ErrorReply nat string
  | FileReply headers string
  | BrokenReply headers string

text \<open>\<^verbatim>\<open>!url || !isValidYouTubeUrl(url)\<close>.\<close>

definition url_rejected :: "platform \<Rightarrow> string option \<Rightarrow> bool" where
  "url_rejected pf v =
     (case v of None \<Rightarrow> True | Some u \<Rightarrow> u = [] \<or> \<not> isValidYouTubeUrl pf u)"

text \<open>The route \<^verbatim>\<open>/info\<close>.\<close>

definition info_handler :: "platform \<Rightarrow> string option \<Rightarrow> world \<Rightarrow> response \<times> world" where
  "info_handler pf v w =
     (if url_rejected pf v then (ErrorReply 400 ''Invalid YouTube URL'', w)
      else (case getVideoInfo pf (the v) w of
              (Inr info, w1) \<Rightarrow> (InfoReply info, w1)
            | (Inl e, w1) \<Rightarrow> (ErrorReply 500 (message pf e), w1)))"

text \<open>The query of \<^verbatim>\<open>/download\<close>, before the defaults of the destructuring apply.\<close>

record query =
  q_url :: "string option"
  q_mode :: "string option"
  q_quality :: "string option"
  q_container :: "string option"
  q_bitrate :: "string option"
  q_start :: "string option"
  q_end :: "string option"

text \<open>A destructuring default: it applies to \<^verbatim>\<open>undefined\<close> only.\<close>

definition dflt :: "string \<Rightarrow> string option \<Rightarrow> string" where
  "dflt d v = (case v of None \<Rightarrow> d | Some s \<Rightarrow> s)"

text \<open>
  \<^verbatim>\<open>x > n\<close> for a parsed value \<open>x\<close>: a number compares as it is, a boolean as 0 or 1,
  \<^verbatim>\<open>null\<close> as 0, anything else through ToNumber, and NaN is greater than nothing.
\<close>

definition js_gt :: "platform \<Rightarrow> json \<Rightarrow> rat \<Rightarrow> bool" where
  "js_gt pf v m =
     (case v of
        JNum n \<Rightarrow> n > m
      | JBool b \<Rightarrow> (if b then 1 else 0) > m
      | JNull \<Rightarrow> 0 > m
      | _ \<Rightarrow> (case to_number pf v of None \<Rightarrow> False | Some n \<Rightarrow> n > m))"

text \<open>
  \<^verbatim>\<open>sanitizeFilename(info.title || 'video')\<close>: a title that is not a string has no
  \<^verbatim>\<open>replace\<close> method, and the call throws.
\<close>

definition sanitize_value :: "json \<Rightarrow> thrown + string" where
  "sanitize_value v = (case v of JStr s \<Rightarrow> Inr (sanitizeFilename s) | _ \<Rightarrow> Inl TypeError)"

text \<open>The format selector, the extension and the file name of the attachment.\<close>

definition build_format ::
  "platform \<Rightarrow> string \<Rightarrow> string \<Rightarrow> string \<Rightarrow> string \<Rightarrow> string \<Rightarrow> string \<times> string \<times> string" where
  "build_format pf mode quality container bitrate title =
     (if mode = ''audio'' then
        (let ext = (if container = ''mp3'' then ''mp3'' else ''webm'')
         in (''bestaudio'', ext, title @ ''_'' @ bitrate @ ''kbps.'' @ ext))
      else
        (let qualityNum = parse_int_text pf (js_replace ''p'' [] quality)
         in (''bestvideo[height<='' @ qualityNum @ '']+bestaudio/best[height<='' @ qualityNum @ '']'',
             container,
             title @ ''_'' @ quality @ ''.'' @ container)))"

definition tempFile :: "platform \<Rightarrow> string \<Rightarrow> string" where
  "tempFile pf ext = path_join pf (os_tmpdir pf) (''ytdl_'' @ fresh pf 0 @ ''.'' @ ext)"

definition trimmedFile :: "platform \<Rightarrow> string \<Rightarrow> string" where
  "trimmedFile pf ext = path_join pf (os_tmpdir pf) (''ytdl_trim_'' @ fresh pf 1 @ ''.'' @ ext)"

text \<open>
  The trimming step: the file to deliver and the file name of the attachment. The unlink
  of the first temp file is attempted only after \<^verbatim>\<open>trimVideo\<close> has resolved.
\<close>

definition trim_stage ::
  "platform \<Rightarrow> string \<Rightarrow> string \<Rightarrow> string option \<Rightarrow> string option \<Rightarrow> world
     \<Rightarrow> (thrown + string \<times> string) \<times> world" where
  "trim_stage pf ext filename start end' w =
     (if given start \<or> given end' then
        (case trimVideo pf (tempFile pf ext) (trimmedFile pf ext) start end' w of
           (Inl e, w1) \<Rightarrow> (Inl e, w1)
         | (Inr u, w1) \<Rightarrow>
             (Inr (trimmedFile pf ext, js_replace (''.'' @ ext) (''_trimmed.'' @ ext) filename),
              unlink pf (tempFile pf ext) w1))
      else (Inr (tempFile pf ext, filename), w))"

definition content_type :: "string \<Rightarrow> string \<Rightarrow> string" where
  "content_type mode ext =
     (if mode = ''audio'' \<and> ext = ''mp3'' then ''audio/mpeg'' else ''video/'' @ ext)"

definition response_headers :: "string \<Rightarrow> string \<Rightarrow> string \<Rightarrow> nat \<Rightarrow> headers" where
  "response_headers mode ext filename sz =
     [(''Content-Type'', HStr (content_type mode ext)),
      (''Content-Length'', HNum sz),
      (''Content-Disposition'', HStr (''attachment; filename='' @ [CHR 0x22] @ filename @ [CHR 0x22])),
      (''Cache-Control'', HStr ''no-cache'')]"

text \<open>
  The delivery: \<^verbatim>\<open>fs.stat\<close>, the four headers in order (the first one the response
  refuses throws), then the stream and its two handlers, each of which attempts the unlink
  of the file. When the response is closed before either event, no handler runs: the body
  is cut short and the file is left alone.
\<close>

definition deliver ::
  "platform \<Rightarrow> string \<Rightarrow> string \<Rightarrow> string \<Rightarrow> string \<Rightarrow> world \<Rightarrow> (thrown + response) \<times> world" where
  "deliver pf mode ext filename finalFile w =
     (case files w finalFile of
        None \<Rightarrow> (Inl (FsError finalFile), w)
      | Some sz \<Rightarrow>
          (let hs = response_headers mode ext filename sz in
           (case find (\<lambda>(k, v). \<not> header_ok pf k v) hs of
              Some (k, v) \<Rightarrow> (Inl (HeaderError k), w)
            | None \<Rightarrow>
                (case read_stream pf finalFile of
                   StreamEnd \<Rightarrow> (Inr (FileReply hs finalFile), unlink pf finalFile w)
                 | StreamError sent \<Rightarrow>
                     (Inr (if sent then BrokenReply hs finalFile
                           else ErrorReply 500 ''Stream error''),
                      unlink pf finalFile w)
                 | ResponseClosed \<Rightarrow> (Inr (BrokenReply hs finalFile), w)))))"

text \<open>The body of the \<^verbatim>\<open>try\<close> of \<^verbatim>\<open>/download\<close>, for a request that passed validation.\<close>

definition download_body :: "platform \<Rightarrow> query \<Rightarrow> world \<Rightarrow> (thrown + response) \<times> world" where
  "download_body pf q w =
     (let u = the (q_url q);
          mode = dflt ''video'' (q_mode q);
          quality = dflt ''720p'' (q_quality q);
          container = dflt ''mp4'' (q_container q);
          bitrate = dflt ''192'' (q_bitrate q)
      in (case getVideoInfo pf u w of
            (Inl e, w1) \<Rightarrow> (Inl e, w1)
          | (Inr info, w1) \<Rightarrow>
              (if js_gt pf (or_else (info_duration info) (JNum 0)) MAX_DURATION
               then (Inl (Error ''Video too long (max 60 minutes)''), w1)
               else (case sanitize_value (or_else (info_title info) (JStr ''video'')) of
                       Inl e \<Rightarrow> (Inl e, w1)
                     | Inr title \<Rightarrow>
                         (case build_format pf mode quality container bitrate title of
                            (format, ext, filename) \<Rightarrow>
                              (case downloadVideo pf u format ext (tempFile pf ext)
                                      mode bitrate container w1 of
                                 (Inl e, w2) \<Rightarrow> (Inl e, w2)
                               | (Inr un, w2) \<Rightarrow>
                                   (case trim_stage pf ext filename (q_start q) (q_end q) w2 of
                                      (Inl e, w3) \<Rightarrow> (Inl e, w3)
                                    | (Inr (finalFile, filename'), w3) \<Rightarrow>
                                        deliver pf mode ext filename' finalFile w3)))))))"

text \<open>
  The route \<^verbatim>\<open>/download\<close>. Everything the \<^verbatim>\<open>try\<close> can throw is thrown before the stream
  is piped, so in the \<^verbatim>\<open>catch\<close> no header has been sent and the error is always reported.
\<close>

definition download_handler :: "platform \<Rightarrow> query \<Rightarrow> world \<Rightarrow> response \<times> world" where
  "download_handler pf q w =
     (if url_rejected pf (q_url q) then (ErrorReply 400 ''Invalid YouTube URL'', w)
      else if dflt ''video'' (q_mode q) \<notin> set [''video'', ''audio'']
      then (ErrorReply 400 (''Invalid mode. Use '' @ [CHR 0x22] @ ''video'' @ [CHR 0x22]
                            @ '' or '' @ [CHR 0x22] @ ''audio'' @ [CHR 0x22]), w)
      else (case download_body pf q w of
              (Inl e, w1) \<Rightarrow> (ErrorReply 500 (message pf e), w1)
            | (Inr r, w1) \<Rightarrow> (r, w1)))"

section \<open>Concrete platforms for the examples\<close>

text \<open>
  A small world to run the routes in: four URLs with their host names, five outputs of the
  info tool with their parsed values, tools whose exit and whose writing of the output file
  are chosen per example, a response that accepts every header, and a file system that
  refuses no unlink.
\<close>

definition demo_hostname :: "string \<Rightarrow> string option" where
  "demo_hostname u =
     (if u = ''https://www.youtube.com/watch?v=abc'' then Some ''www.youtube.com''
      else if u = ''https://fake-youtube.com.evil.example/watch''
      then Some ''fake-youtube.com.evil.example''
      else if u = ''https://youtu.be/abc'' then Some ''youtu.be''
      else if u = ''https://example.org/video'' then Some ''example.org''
      else None)"

definition long_video_text :: string where
  "long_video_text = ''{'' @ [CHR 0x22] @ ''duration'' @ [CHR 0x22] @ '':4000}''"

definition short_video_text :: string where
  "short_video_text =
     ''{'' @ [CHR 0x22] @ ''title'' @ [CHR 0x22] @ '':'' @ [CHR 0x22] @ ''My Video'' @ [CHR 0x22]
     @ '','' @ [CHR 0x22] @ ''duration'' @ [CHR 0x22] @ '':120}''"

definition numeric_title_text :: string where
  "numeric_title_text = ''{'' @ [CHR 0x22] @ ''title'' @ [CHR 0x22] @ '':123}''"

definition demo_parse :: "string \<Rightarrow> json option" where
  "demo_parse s =
     (if s = ''{}'' then Some (JObj [])
      else if s = ''null'' then Some JNull
      else if s = long_video_text then Some (JObj [(''duration'', JNum 4000)])
      else if s = short_video_text
      then Some (JObj [(''title'', JStr ''My Video''), (''duration'', JNum 120)])
      else if s = numeric_title_text then Some (JObj [(''title'', JNum 123)])
      else None)"

text \<open>
  The tools: \<open>ffmpeg\<close> writes its last argument, the download tool the argument after
  \<^verbatim>\<open>-o\<close>, each only when the example says so; the info tool writes nothing.
\<close>

definition demo_run ::
  "proc_exit \<Rightarrow> proc_exit \<Rightarrow> bool \<Rightarrow> proc_exit \<Rightarrow> bool
     \<Rightarrow> string \<Rightarrow> string list \<Rightarrow> (string \<rightharpoonup> nat) \<Rightarrow> proc_exit \<times> (string \<rightharpoonup> nat)" where
  "demo_run info_exit dl_exit dl_writes trim_exit trim_writes cmd args fs =
     (if cmd = ''ffmpeg'' then (trim_exit, if trim_writes then fs(last args \<mapsto> 400) else fs)
      else if take 1 args = [''--dump-json''] then (info_exit, fs)
      else (dl_exit, if dl_writes then fs(last (butlast args) \<mapsto> 1000) else fs))"

definition demo_platform ::
  "(string \<Rightarrow> string list \<Rightarrow> (string \<rightharpoonup> nat) \<Rightarrow> proc_exit \<times> (string \<rightharpoonup> nat))
     \<Rightarrow> stream_result \<Rightarrow> platform" where
  "demo_platform rn rs =
     \<lparr>env_YT_DLP_PATH = None,
      env_FFMPEG_PATH = None,
      url_hostname = demo_hostname,
      json_parse = demo_parse,
      to_number = (\<lambda>j. None),
      parse_int_text = (\<lambda>s. if s = ''720'' then ''720'' else ''NaN''),
      os_tmpdir = ''/tmp'',
      path_join = (\<lambda>a b. a @ ''/'' @ b),
      fresh = (\<lambda>n. if n = 0 then ''1700000000000_k3j9x'' else ''1700000000001_p0q2z''),
      run = rn,
      header_ok = (\<lambda>k v. True),
      read_stream = (\<lambda>p. rs),
      unlink_refused = (\<lambda>p. False),
      runtime_message =
        (\<lambda>e. case e of TypeError \<Rightarrow> ''name.replace is not a function''
              | _ \<Rightarrow> ''runtime error'')\<rparr>"

definition demo_world :: world where
  "demo_world = \<lparr>files = Map.empty, spawned = []\<rparr>"

definition demo_query :: query where
  "demo_query =
     \<lparr>q_url = Some ''https://www.youtube.com/watch?v=abc'',
      q_mode = None, q_quality = None, q_container = None, q_bitrate = None,
      q_start = None, q_end = None\<rparr>"

text \<open>The platforms of the examples: every tool succeeds; then one thing differs in each.\<close>

definition pf_ok :: platform where
  "pf_ok = demo_platform
     (demo_run (Closed (Some 0) short_video_text []) (Closed (Some 0) [] []) True
        (Closed (Some 0) [] []) True) StreamEnd"

definition pf_long :: platform where
  "pf_long = demo_platform
     (demo_run (Closed (Some 0) long_video_text []) (Closed (Some 0) [] []) True
        (Closed (Some 0) [] []) True) StreamEnd"

definition pf_no_duration :: platform where
  "pf_no_duration = demo_platform
     (demo_run (Closed (Some 0) ''{}'' []) (Closed (Some 0) [] []) True
        (Closed (Some 0) [] []) True) StreamEnd"

definition pf_info_fails :: platform where
  "pf_info_fails = demo_platform
     (demo_run (Closed (Some 1) [] ''ERROR: Video unavailable'') (Closed (Some 0) [] []) True
        (Closed (Some 0) [] []) True) StreamEnd"

definition pf_info_garbled :: platform where
  "pf_info_garbled = demo_platform
     (demo_run (Closed (Some 0) ''<html>'' []) (Closed (Some 0) [] []) True
        (Closed (Some 0) [] []) True) StreamEnd"

definition pf_download_fails :: platform where
  "pf_download_fails = demo_platform
     (demo_run (Closed (Some 0) short_video_text []) (Closed (Some 1) [] ''ERROR: HTTP 403'') False
        (Closed (Some 0) [] []) True) StreamEnd"

definition pf_download_writes_nothing :: platform where
  "pf_download_writes_nothing = demo_platform
     (demo_run (Closed (Some 0) short_video_text []) (Closed (Some 0) [] []) False
        (Closed (Some 0) [] []) True) StreamEnd"

definition pf_numeric_title :: platform where
  "pf_numeric_title = demo_platform
     (demo_run (Closed (Some 0) numeric_title_text []) (Closed (Some 0) [] []) True
        (Closed (Some 0) [] []) True) StreamEnd"

text \<open>Every tool succeeds, but the unlink of the first temp file is refused.\<close>

definition pf_unlink_refused :: platform where
  "pf_unlink_refused =
     pf_ok\<lparr>unlink_refused := (\<lambda>p. p = ''/tmp/ytdl_1700000000000_k3j9x.mp4'')\<rparr>"

definition pf_trim_fails :: platform where
  "pf_trim_fails = demo_platform
     (demo_run (Closed (Some 0) short_video_text []) (Closed (Some 0) [] []) True
        (Closed (Some 1) [] ''Invalid duration'') False) StreamEnd"

section \<open>What the helpers and the stages do to the world\<close>

lemmas fx = pf_ok_def pf_long_def pf_no_duration_def pf_info_fails_def pf_info_garbled_def
  pf_download_fails_def pf_download_writes_nothing_def pf_trim_fails_def
  pf_numeric_title_def pf_unlink_refused_def numeric_title_text_def
  demo_platform_def demo_run_def demo_world_def demo_query_def demo_hostname_def demo_parse_def
  long_video_text_def short_video_text_def

lemma literal_search_iff: "literal_search p s = (\<exists>xs ys. s = xs @ p @ ys)"
proof (induction s)
  case Nil
  then show ?case by auto
next
  case (Cons c cs)
  note ih = Cons.IH
  show ?case
  proof
    assume "literal_search p (c # cs)"
    then consider "take (length p) (c # cs) = p" | "literal_search p cs" by auto
    then show "\<exists>xs ys. c # cs = xs @ p @ ys"
    proof cases
      case 1
      then have "c # cs = [] @ p @ drop (length p) (c # cs)"
        by (metis append_Nil append_take_drop_id)
      then show ?thesis by blast
    next
      case 2
      with ih obtain xs ys where "cs = xs @ p @ ys" by auto
      then have "c # cs = (c # xs) @ p @ ys" by simp
      then show ?thesis by blast
    qed
  next
    assume "\<exists>xs ys. c # cs = xs @ p @ ys"
    then obtain xs ys where e: "c # cs = xs @ p @ ys" by auto
    show "literal_search p (c # cs)"
    proof (cases xs)
      case Nil
      with e have "take (length p) (c # cs) = p" by simp
      then show ?thesis by simp
    next
      case (Cons x xs')
      with e have "cs = xs' @ p @ ys" by simp
      with ih have "literal_search p cs" by blast
      then show ?thesis by simp
    qed
  qed
qed

lemma spawn_world:
  "snd (spawn pf c a w) = w\<lparr>files := snd (run pf c a (files w)), spawned := spawned w @ [(c, a)]\<rparr>"
  by (simp add: spawn_def split: prod.splits)

lemma spawn_exit: "fst (spawn pf c a w) = fst (run pf c a (files w))"
  by (simp add: spawn_def split: prod.splits)

lemma getVideoInfo_world:
  "snd (getVideoInfo pf u w) = snd (spawn pf (YT_DLP_PATH pf) [''--dump-json'', ''--no-warnings'', u] w)"
  by (auto simp: getVideoInfo_def split: prod.splits proc_exit.splits option.splits json.splits)

lemma downloadVideo_world:
  "snd (downloadVideo pf u f e out m b c w) =
     snd (spawn pf (YT_DLP_PATH pf) (download_args u f e out m b c) w)"
  by (auto simp: downloadVideo_def split: prod.splits proc_exit.splits)

lemma trimVideo_world:
  "snd (trimVideo pf i out s e w) = snd (spawn pf (FFMPEG_PATH pf) (trim_args i out s e) w)"
  by (auto simp: trimVideo_def split: prod.splits proc_exit.splits)

lemma getVideoInfo_spawned:
  "spawned (snd (getVideoInfo pf u w)) =
     spawned w @ [(YT_DLP_PATH pf, [''--dump-json'', ''--no-warnings'', u])]"
  by (simp add: getVideoInfo_world spawn_world)

lemma downloadVideo_spawned:
  "spawned (snd (downloadVideo pf u f e out m b c w)) =
     spawned w @ [(YT_DLP_PATH pf, download_args u f e out m b c)]"
  by (simp add: downloadVideo_world spawn_world)

lemma trimVideo_spawned:
  "spawned (snd (trimVideo pf i out s e w)) =
     spawned w @ [(FFMPEG_PATH pf, trim_args i out s e)]"
  by (simp add: trimVideo_world spawn_world)

lemma deliver_spawned: "spawned (snd (deliver pf m e fn ff w)) = spawned w"
  by (auto simp: deliver_def unlink_def Let_def split: option.splits prod.splits stream_result.splits)

lemma trim_stage_spawned:
  "spawned (snd (trim_stage pf ext fn s e w)) =
     spawned w @ (if given s \<or> given e
                  then [(FFMPEG_PATH pf, trim_args (tempFile pf ext) (trimmedFile pf ext) s e)]
                  else [])"
  using trimVideo_spawned [of pf "tempFile pf ext" "trimmedFile pf ext" s e w]
  by (auto simp: trim_stage_def unlink_def split: prod.splits sum.splits)

lemma getVideoInfo_spawnedD:
  "getVideoInfo pf u w = (r, w1) \<Longrightarrow>
     spawned w1 = spawned w @ [(YT_DLP_PATH pf, [''--dump-json'', ''--no-warnings'', u])]"
  using getVideoInfo_spawned [of pf u w] by simp

lemma downloadVideo_spawnedD:
  "downloadVideo pf u f e out m b c w = (r, w1) \<Longrightarrow>
     spawned w1 = spawned w @ [(YT_DLP_PATH pf, download_args u f e out m b c)]"
  using downloadVideo_spawned [of pf u f e out m b c w] by simp

lemma trim_stage_spawnedD:
  "trim_stage pf ext fn s e w = (r, w1) \<Longrightarrow>
     spawned w1 = spawned w @ (if given s \<or> given e
                  then [(FFMPEG_PATH pf, trim_args (tempFile pf ext) (trimmedFile pf ext) s e)]
                  else [])"
  using trim_stage_spawned [of pf ext fn s e w] by simp

lemma deliver_spawnedD: "deliver pf m e fn ff w = (r, w1) \<Longrightarrow> spawned w1 = spawned w"
  using deliver_spawned [of pf m e fn ff w] by simp

lemma download_body_spawned_prefix:
  "\<exists>rest. spawned (snd (download_body pf q w)) =
     spawned w @ (YT_DLP_PATH pf, [''--dump-json'', ''--no-warnings'', the (q_url q)]) # rest"
  by (auto simp: download_body_def Let_def deliver_spawned
      split: prod.splits sum.splits
      dest!: getVideoInfo_spawnedD downloadVideo_spawnedD trim_stage_spawnedD deliver_spawnedD)

lemma getVideoInfo_resolved:
  assumes "getVideoInfo pf u w = (Inr info, w1)"
  shows "\<exists>so se fs j. run pf (YT_DLP_PATH pf) [''--dump-json'', ''--no-warnings'', u] (files w)
                       = (Closed (Some 0) so se, fs)
                   \<and> json_parse pf so = Some j \<and> j \<noteq> JNull
                   \<and> info = \<lparr>info_id = get_prop j ''id'', info_title = get_prop j ''title'',
                             info_duration = get_prop j ''duration'',
                             info_thumbnail = get_prop j ''thumbnail'',
                             info_uploader = get_prop j ''uploader'',
                             info_upload_date = get_prop j ''upload_date''\<rparr>"
proof (cases "run pf (YT_DLP_PATH pf) [''--dump-json'', ''--no-warnings'', u] (files w)")
  case (Pair r fs)
  show ?thesis
  proof (cases r)
    case (SpawnFailed m)
    with Pair assms show ?thesis by (simp add: getVideoInfo_def spawn_def)
  next
    case (Closed code so se)
    with Pair assms have c: "code = Some 0"
      by (simp add: getVideoInfo_def spawn_def split: if_splits)
    show ?thesis
    proof (cases "json_parse pf so")
      case None
      with Pair Closed c assms show ?thesis by (simp add: getVideoInfo_def spawn_def)
    next
      case (Some j)
      with Pair Closed c assms show ?thesis
        by (cases j) (auto simp: getVideoInfo_def spawn_def)
    qed
  qed
qed

lemma getVideoInfo_nonzero_exit:
  "run pf (YT_DLP_PATH pf) [''--dump-json'', ''--no-warnings'', u] (files w)
          = (Closed code so se, fs) \<Longrightarrow> code \<noteq> Some 0 \<Longrightarrow>
        fst (getVideoInfo pf u w) = Inl (Error (''Failed to fetch video info: '' @ se))"
  by (simp add: getVideoInfo_def spawn_def)

lemma getVideoInfo_unparseable:
  "run pf (YT_DLP_PATH pf) [''--dump-json'', ''--no-warnings'', u] (files w)
          = (Closed (Some 0) so se, fs) \<Longrightarrow> json_parse pf so = None \<Longrightarrow>
        fst (getVideoInfo pf u w) = Inl (Error ''Failed to parse video info'')"
  by (simp add: getVideoInfo_def spawn_def)

lemma info_handler_500:
  "u \<noteq> [] \<Longrightarrow> isValidYouTubeUrl pf u \<Longrightarrow> fst (getVideoInfo pf u w) = Inl e \<Longrightarrow>
        fst (info_handler pf (Some u) w) = ErrorReply 500 (message pf e)"
  by (cases "getVideoInfo pf u w") (simp add: info_handler_def url_rejected_def)

lemma info_handler_400:
  "fst (info_handler pf v w) = ErrorReply 400 msg \<Longrightarrow> url_rejected pf v"
  by (cases "getVideoInfo pf (the v) w")
     (auto simp: info_handler_def split: if_splits sum.splits)






lemma deliver_Inr:
  assumes "deliver pf m e fn ff w = (Inr r, w1)"
  shows "\<exists>sz. files w ff = Some sz
          \<and> ((r = FileReply (response_headers m e fn sz) ff \<and> w1 = unlink pf ff w)
             \<or> (r = BrokenReply (response_headers m e fn sz) ff
                 \<and> (w1 = unlink pf ff w \<or> w1 = w))
             \<or> (r = ErrorReply 500 ''Stream error'' \<and> w1 = unlink pf ff w))"
  using assms
  by (auto simp: deliver_def Let_def
      split: option.splits prod.splits stream_result.splits if_splits)

lemma trim_stage_Inr:
  assumes "trim_stage pf ext fn s e w = (Inr (ff, fn'), w1)"
  shows "(\<not> (given s \<or> given e) \<and> ff = tempFile pf ext \<and> fn' = fn \<and> w1 = w)
       \<or> ((given s \<or> given e) \<and> ff = trimmedFile pf ext
           \<and> fn' = js_replace (''.'' @ ext) (''_trimmed.'' @ ext) fn
           \<and> (\<exists>w0. trimVideo pf (tempFile pf ext) (trimmedFile pf ext) s e w = (Inr (), w0)
                  \<and> w1 = unlink pf (tempFile pf ext) w0))"
  using assms
  by (auto simp: trim_stage_def split: prod.splits sum.splits if_splits)

lemma download_body_Inr:
  assumes "download_body pf q w = (Inr r, w')"
  shows "\<exists>info w1 title fmt ext fn w2 ff fn' w3.
           getVideoInfo pf (the (q_url q)) w = (Inr info, w1)
         \<and> \<not> js_gt pf (or_else (info_duration info) (JNum 0)) MAX_DURATION
         \<and> sanitize_value (or_else (info_title info) (JStr ''video'')) = Inr title
         \<and> build_format pf (dflt ''video'' (q_mode q)) (dflt ''720p'' (q_quality q))
              (dflt ''mp4'' (q_container q)) (dflt ''192'' (q_bitrate q)) title = (fmt, ext, fn)
         \<and> downloadVideo pf (the (q_url q)) fmt ext (tempFile pf ext) (dflt ''video'' (q_mode q))
              (dflt ''192'' (q_bitrate q)) (dflt ''mp4'' (q_container q)) w1 = (Inr (), w2)
         \<and> trim_stage pf ext fn (q_start q) (q_end q) w2 = (Inr (ff, fn'), w3)
         \<and> deliver pf (dflt ''video'' (q_mode q)) ext fn' ff w3 = (Inr r, w')"
  using assms
  by (auto simp: download_body_def Let_def split: prod.splits sum.splits if_splits)

lemma download_handler_delivered:
  assumes "fst (download_handler pf q w) = FileReply hs f
           \<or> fst (download_handler pf q w) = BrokenReply hs f"
  shows "download_body pf q w = (Inr (fst (download_handler pf q w)), snd (download_handler pf q w))"
  using assms
  by (auto simp: download_handler_def split: prod.splits sum.splits if_splits)

lemma delivered_request:
  assumes "fst (download_handler pf q w) = FileReply hs f
           \<or> fst (download_handler pf q w) = BrokenReply hs f"
  shows "\<exists>u info w1 title fmt ext fn w2 fn' w3 sz.
           q_url q = Some u
         \<and> getVideoInfo pf u w = (Inr info, w1)
         \<and> sanitize_value (or_else (info_title info) (JStr ''video'')) = Inr title
         \<and> build_format pf (dflt ''video'' (q_mode q)) (dflt ''720p'' (q_quality q))
              (dflt ''mp4'' (q_container q)) (dflt ''192'' (q_bitrate q)) title = (fmt, ext, fn)
         \<and> downloadVideo pf u fmt ext (tempFile pf ext) (dflt ''video'' (q_mode q))
              (dflt ''192'' (q_bitrate q)) (dflt ''mp4'' (q_container q)) w1 = (Inr (), w2)
         \<and> trim_stage pf ext fn (q_start q) (q_end q) w2 = (Inr (f, fn'), w3)
         \<and> files w3 f = Some sz
         \<and> hs = response_headers (dflt ''video'' (q_mode q)) ext fn' sz
         \<and> (snd (download_handler pf q w) = unlink pf f w3
              \<or> fst (download_handler pf q w) = BrokenReply hs f
                  \<and> snd (download_handler pf q w) = w3)"
proof -
  let ?r = "fst (download_handler pf q w)"
  let ?w = "snd (download_handler pf q w)"
  have body: "download_body pf q w = (Inr ?r, ?w)"
    using download_handler_delivered [OF assms] .
  have "\<not> url_rejected pf (q_url q)"
    using assms by (auto simp: download_handler_def split: if_splits)
  then obtain u where u: "q_url q = Some u"
    by (auto simp: url_rejected_def split: option.splits)
  from download_body_Inr [OF body] obtain info w1 title fmt ext fn w2 ff fn' w3 where
    g: "getVideoInfo pf (the (q_url q)) w = (Inr info, w1)"
    and s: "sanitize_value (or_else (info_title info) (JStr ''video'')) = Inr title"
    and b: "build_format pf (dflt ''video'' (q_mode q)) (dflt ''720p'' (q_quality q))
              (dflt ''mp4'' (q_container q)) (dflt ''192'' (q_bitrate q)) title = (fmt, ext, fn)"
    and d: "downloadVideo pf (the (q_url q)) fmt ext (tempFile pf ext) (dflt ''video'' (q_mode q))
              (dflt ''192'' (q_bitrate q)) (dflt ''mp4'' (q_container q)) w1 = (Inr (), w2)"
    and t: "trim_stage pf ext fn (q_start q) (q_end q) w2 = (Inr (ff, fn'), w3)"
    and dl: "deliver pf (dflt ''video'' (q_mode q)) ext fn' ff w3 = (Inr ?r, ?w)"
    by blast
  from deliver_Inr [OF dl] obtain sz where
    sz: "files w3 ff = Some sz"
    and r: "(?r = FileReply (response_headers (dflt ''video'' (q_mode q)) ext fn' sz) ff
             \<and> ?w = unlink pf ff w3)
          \<or> (?r = BrokenReply (response_headers (dflt ''video'' (q_mode q)) ext fn' sz) ff
              \<and> (?w = unlink pf ff w3 \<or> ?w = w3))
          \<or> (?r = ErrorReply 500 ''Stream error'' \<and> ?w = unlink pf ff w3)"
    by blast
  from r assms have e: "ff = f \<and> hs = response_headers (dflt ''video'' (q_mode q)) ext fn' sz"
    by auto
  with r assms have "?w = unlink pf f w3 \<or> ?r = BrokenReply hs f \<and> ?w = w3"
    by auto
  with e u g s b d t sz show ?thesis by auto
qed





lemma unlink_spawned: "spawned (unlink pf p w) = spawned w"
  by (simp add: unlink_def)

lemma unlink_files:
  "files (unlink pf p w) = (if unlink_refused pf p then files w else (files w)(p := None))"
  by (simp add: unlink_def)

lemma completed_stream_removes_delivered_file:
  assumes "fst (download_handler pf q w) = FileReply hs f" and "\<not> unlink_refused pf f"
  shows "files (snd (download_handler pf q w)) f = None"
  using delivered_request [OF disjI1 [OF assms(1)]] assms
  by (auto simp: unlink_files)

subsection \<open>What \<^verbatim>\<open>sanitizeFilename\<close> does guarantee\<close>

lemma set_collapse_spaces: "set (collapse_spaces s) \<subseteq> insert (CHR '' '') (set s)"
proof (induction s rule: collapse_spaces.induct)
  case 1
  then show ?case by simp
next
  case (2 c cs)
  show ?case
  proof (cases "is_space c")
    case True
    with 2 have "set (collapse_spaces (dropWhile is_space cs))
                   \<subseteq> insert (CHR '' '') (set (dropWhile is_space cs))"
      by simp
    moreover have "set (dropWhile is_space cs) \<subseteq> set cs"
      by (auto dest: set_dropWhileD)
    ultimately show ?thesis using True by auto
  next
    case False
    with 2 show ?thesis by auto
  qed
qed

lemma set_trim: "set (trim s) \<subseteq> set s"
  by (auto simp: trim_def dest!: set_dropWhileD)

lemma sanitizeFilename_length: "length (sanitizeFilename name) \<le> 100"
  by (simp add: sanitizeFilename_def)

lemma allowed_space: "allowed_char (CHR '' '')"
  by (simp add: allowed_char_def)

lemma allowed_underscore: "allowed_char (CHR ''_'')"
  by (simp add: allowed_char_def)

lemma sanitizeFilename_chars:
  assumes "c \<in> set (sanitizeFilename name)"
  shows "allowed_char c"
proof -
  let ?m = "map (\<lambda>c. if allowed_char c then c else CHR ''_'') name"
  from assms have "c \<in> set (trim (collapse_spaces ?m))"
    by (auto simp: sanitizeFilename_def dest: in_set_takeD)
  then have "c \<in> insert (CHR '' '') (set ?m)"
    using set_trim set_collapse_spaces by blast
  then show ?thesis
    using allowed_space allowed_underscore by auto
qed

lemma hd_trim:
  assumes "trim s \<noteq> []"
  shows "\<not> is_space (hd (trim s))"
proof -
  let ?t = "dropWhile is_space s"
  have split: "trim s @ rev (takeWhile is_space (rev ?t)) = ?t"
    unfolding trim_def
    by (metis rev_append rev_rev_ident takeWhile_dropWhile_id)
  from assms split have "hd (trim s) = hd ?t"
    by (metis hd_append2)
  moreover from assms split have "?t \<noteq> []" by (metis append_is_Nil_conv)
  ultimately show ?thesis
    using hd_dropWhile [of is_space s] by simp
qed

lemma sanitizeFilename_no_leading_space:
  assumes "sanitizeFilename name \<noteq> []"
  shows "\<not> is_space (hd (sanitizeFilename name))"
proof -
  let ?x = "trim (collapse_spaces (map (\<lambda>c. if allowed_char c then c else CHR ''_'') name))"
  from assms have ne: "?x \<noteq> []" by (auto simp: sanitizeFilename_def)
  then have "hd (take 100 ?x) = hd ?x" by (cases ?x) auto
  with hd_trim [OF ne] show ?thesis by (simp add: sanitizeFilename_def)
qed

section \<open>The claims\<close>

text \<open>
  Claim C1. Every temp file a \<^verbatim>\<open>/download\<close> request creates is claimed to be gone at the
  end of the request on every exit path. The two stream handlers and the step after a
  successful trim unlink their file, but the \<^verbatim>\<open>catch\<close> of the route unlinks nothing: when
  the download has written its temp file and the trim tool then fails, the request ends with
  status 500 and the downloaded file is still on disk.
\<close>

theorem trim_failure_leaves_temp_file:
  "tempFile pf_trim_fails ''mp4'' = ''/tmp/ytdl_1700000000000_k3j9x.mp4''
   \<and> files demo_world ''/tmp/ytdl_1700000000000_k3j9x.mp4'' = None
   \<and> fst (download_handler pf_trim_fails (demo_query\<lparr>q_start := Some ''abc''\<rparr>) demo_world)
       = ErrorReply 500 ''Trim failed: Invalid duration''
   \<and> files (snd (download_handler pf_trim_fails (demo_query\<lparr>q_start := Some ''abc''\<rparr>)
                   demo_world)) ''/tmp/ytdl_1700000000000_k3j9x.mp4'' = Some 1000"
  by code_simp

text \<open>
  Claim C2. When a \<^verbatim>\<open>/download\<close> request has passed validation and the fetched metadata
  carries a numeric duration above 3600 seconds, the handler answers with status 500 and
  the message about the length, and the only process spawned during the request is the
  metadata fetch: the download tool is never called.
\<close>

theorem long_video_rejected_before_download:
  assumes "q_url q = Some u" and "u \<noteq> []" and "isValidYouTubeUrl pf u"
    and "dflt ''video'' (q_mode q) = ''video'' \<or> dflt ''video'' (q_mode q) = ''audio''"
    and "getVideoInfo pf u w = (Inr info, w1)"
    and "info_duration info = Some (JNum d)" and "d > 3600"
  shows "download_handler pf q w = (ErrorReply 500 ''Video too long (max 60 minutes)'', w1)
         \<and> spawned w1 = spawned w @ [(YT_DLP_PATH pf, [''--dump-json'', ''--no-warnings'', u])]"
proof -
  have gt: "js_gt pf (or_else (info_duration info) (JNum 0)) MAX_DURATION"
    using assms(6,7) by (simp add: js_gt_def or_else_def MAX_DURATION_def)
  have body: "download_body pf q w = (Inl (Error ''Video too long (max 60 minutes)''), w1)"
    using assms(1,5) gt by (simp add: download_body_def)
  have "download_handler pf q w = (ErrorReply 500 ''Video too long (max 60 minutes)'', w1)"
    using assms(1-4) body
    by (auto simp: download_handler_def url_rejected_def message_def)
  moreover have "spawned w1 = spawned w @ [(YT_DLP_PATH pf, [''--dump-json'', ''--no-warnings'', u])]"
    using getVideoInfo_spawnedD [OF assms(5)] .
  ultimately show ?thesis by simp
qed

theorem long_video_rejected_before_download_witness:
  "q_url demo_query = Some ''https://www.youtube.com/watch?v=abc''
   \<and> isValidYouTubeUrl pf_long ''https://www.youtube.com/watch?v=abc''
   \<and> dflt ''video'' (q_mode demo_query) = ''video''
   \<and> getVideoInfo pf_long ''https://www.youtube.com/watch?v=abc'' demo_world
       = (Inr \<lparr>info_id = None, info_title = None, info_duration = Some (JNum 4000),
               info_thumbnail = None, info_uploader = None, info_upload_date = None\<rparr>,
          \<lparr>files = Map.empty,
           spawned = [(''yt-dlp'', [''--dump-json'', ''--no-warnings'',
                                   ''https://www.youtube.com/watch?v=abc''])]\<rparr>)
   \<and> (4000 :: rat) > 3600
   \<and> download_handler pf_long demo_query demo_world
       = (ErrorReply 500 ''Video too long (max 60 minutes)'',
          \<lparr>files = Map.empty,
           spawned = [(''yt-dlp'', [''--dump-json'', ''--no-warnings'',
                                   ''https://www.youtube.com/watch?v=abc''])]\<rparr>)"
proof -
  have a1: "q_url demo_query = Some ''https://www.youtube.com/watch?v=abc''"
    by (simp add: demo_query_def)
  have a2: "''https://www.youtube.com/watch?v=abc'' \<noteq> []" by simp
  have a3: "isValidYouTubeUrl pf_long ''https://www.youtube.com/watch?v=abc''"
    by (simp add: isValidYouTubeUrl_def youtube_pattern_test_def fx)
  have a4: "dflt ''video'' (q_mode demo_query) = ''video''"
    by (simp add: dflt_def demo_query_def)
  have a5: "getVideoInfo pf_long ''https://www.youtube.com/watch?v=abc'' demo_world
       = (Inr \<lparr>info_id = None, info_title = None, info_duration = Some (JNum 4000),
               info_thumbnail = None, info_uploader = None, info_upload_date = None\<rparr>,
          \<lparr>files = Map.empty,
           spawned = [(''yt-dlp'', [''--dump-json'', ''--no-warnings'',
                                   ''https://www.youtube.com/watch?v=abc''])]\<rparr>)"
    by (simp add: getVideoInfo_def spawn_def fx YT_DLP_PATH_def env_or_def)
  have a7: "(4000 :: rat) > 3600" by simp
  have c: "download_handler pf_long demo_query demo_world
       = (ErrorReply 500 ''Video too long (max 60 minutes)'',
          \<lparr>files = Map.empty,
           spawned = [(''yt-dlp'', [''--dump-json'', ''--no-warnings'',
                                   ''https://www.youtube.com/watch?v=abc''])]\<rparr>)"
    using long_video_rejected_before_download [OF a1 a2 a3 disjI1 [OF a4] a5 _ a7]
    by simp
  from a1 a3 a4 a5 a7 c show ?thesis by blast
qed

text \<open>
  Claim C3. A request to \<^verbatim>\<open>/info\<close> or \<^verbatim>\<open>/download\<close> whose \<^verbatim>\<open>url\<close> is missing or empty, does
  not parse as a URL, or has a host name the pattern does not match, and a request to
  \<^verbatim>\<open>/download\<close> whose mode is neither \<^verbatim>\<open>video\<close> nor \<^verbatim>\<open>audio\<close>, is answered with status
  400, and the world is returned as it was: no process has been spawned and no file touched.
\<close>

theorem invalid_request_is_400_without_spawn:
  "info_handler pf None w = (ErrorReply 400 ''Invalid YouTube URL'', w)
   \<and> info_handler pf (Some []) w = (ErrorReply 400 ''Invalid YouTube URL'', w)
   \<and> (url_hostname pf u1 = None \<longrightarrow>
        info_handler pf (Some u1) w = (ErrorReply 400 ''Invalid YouTube URL'', w))
   \<and> (url_hostname pf u2 = Some h2 \<and> \<not> youtube_pattern_test h2 \<longrightarrow>
        info_handler pf (Some u2) w = (ErrorReply 400 ''Invalid YouTube URL'', w))
   \<and> (q_url q3 = None \<or> q_url q3 = Some [] \<longrightarrow>
        download_handler pf q3 w = (ErrorReply 400 ''Invalid YouTube URL'', w))
   \<and> (q_url q4 = Some u4 \<and> url_hostname pf u4 = None \<longrightarrow>
        download_handler pf q4 w = (ErrorReply 400 ''Invalid YouTube URL'', w))
   \<and> (q_url q5 = Some u5 \<and> url_hostname pf u5 = Some h5 \<and> \<not> youtube_pattern_test h5 \<longrightarrow>
        download_handler pf q5 w = (ErrorReply 400 ''Invalid YouTube URL'', w))
   \<and> (q_mode q6 = Some m6 \<and> m6 \<noteq> ''video'' \<and> m6 \<noteq> ''audio'' \<longrightarrow>
        (\<exists>msg. download_handler pf q6 w = (ErrorReply 400 msg, w)))"
  by (auto simp: info_handler_def download_handler_def url_rejected_def isValidYouTubeUrl_def
      dflt_def)

theorem invalid_request_is_400_without_spawn_witness:
  "url_hostname pf_ok ''not a url'' = None
   \<and> info_handler pf_ok (Some ''not a url'') demo_world
       = (ErrorReply 400 ''Invalid YouTube URL'', demo_world)
   \<and> url_hostname pf_ok ''https://example.org/video'' = Some ''example.org''
   \<and> \<not> youtube_pattern_test ''example.org''
   \<and> info_handler pf_ok (Some ''https://example.org/video'') demo_world
       = (ErrorReply 400 ''Invalid YouTube URL'', demo_world)
   \<and> q_url (demo_query\<lparr>q_url := None\<rparr>) = None
   \<and> download_handler pf_ok (demo_query\<lparr>q_url := None\<rparr>) demo_world
       = (ErrorReply 400 ''Invalid YouTube URL'', demo_world)
   \<and> q_url (demo_query\<lparr>q_url := Some ''not a url''\<rparr>) = Some ''not a url''
   \<and> download_handler pf_ok (demo_query\<lparr>q_url := Some ''not a url''\<rparr>) demo_world
       = (ErrorReply 400 ''Invalid YouTube URL'', demo_world)
   \<and> q_url (demo_query\<lparr>q_url := Some ''https://example.org/video''\<rparr>)
       = Some ''https://example.org/video''
   \<and> download_handler pf_ok (demo_query\<lparr>q_url := Some ''https://example.org/video''\<rparr>)
         demo_world
       = (ErrorReply 400 ''Invalid YouTube URL'', demo_world)
   \<and> q_mode (demo_query\<lparr>q_mode := Some ''both''\<rparr>) = Some ''both''
   \<and> ''both'' \<noteq> ''video'' \<and> ''both'' \<noteq> ''audio''
   \<and> fst (download_handler pf_ok (demo_query\<lparr>q_mode := Some ''both''\<rparr>) demo_world)
       = ErrorReply 400 (''Invalid mode. Use '' @ [CHR 0x22] @ ''video'' @ [CHR 0x22]
                            @ '' or '' @ [CHR 0x22] @ ''audio'' @ [CHR 0x22])
   \<and> snd (download_handler pf_ok (demo_query\<lparr>q_mode := Some ''both''\<rparr>) demo_world)
       = demo_world"
proof -
  have h1: "url_hostname pf_ok ''not a url'' = None"
    by (simp add: fx)
  have h2: "url_hostname pf_ok ''https://example.org/video'' = Some ''example.org''
            \<and> \<not> youtube_pattern_test ''example.org''"
    by (simp add: fx youtube_pattern_test_def)
  have h6: "q_mode (demo_query\<lparr>q_mode := Some ''both''\<rparr>) = Some ''both''
            \<and> ''both'' \<noteq> ''video'' \<and> ''both'' \<noteq> ''audio''"
    by simp
  note c = invalid_request_is_400_without_spawn
      [of pf_ok demo_world "''not a url''" "''https://example.org/video''" "''example.org''"
      "demo_query\<lparr>q_url := None\<rparr>"
      "demo_query\<lparr>q_url := Some ''not a url''\<rparr>" "''not a url''"
      "demo_query\<lparr>q_url := Some ''https://example.org/video''\<rparr>"
      "''https://example.org/video''"
      "''example.org''" "demo_query\<lparr>q_mode := Some ''both''\<rparr>" "''both''"]
  have m: "fst (download_handler pf_ok (demo_query\<lparr>q_mode := Some ''both''\<rparr>) demo_world)
       = ErrorReply 400 (''Invalid mode. Use '' @ [CHR 0x22] @ ''video'' @ [CHR 0x22]
                            @ '' or '' @ [CHR 0x22] @ ''audio'' @ [CHR 0x22])"
    by (simp add: download_handler_def url_rejected_def isValidYouTubeUrl_def dflt_def fx
        youtube_pattern_test_def)
  from c h1 h2 h6 m show ?thesis by auto
qed

text \<open>
  Claim C4. \<^verbatim>\<open>downloadVideo\<close> resolves exactly when the download tool closes with exit code
  0 and the output file is on disk afterwards; a close with any other code rejects with the
  tool's diagnostic text, and exit code 0 without the file rejects as well.
\<close>

theorem downloadVideo_resolves_iff_exit0_and_file:
  "((fst (downloadVideo pf u f e out m b c w) = Inr ()) =
      (\<exists>so se fs. run pf (YT_DLP_PATH pf) (download_args u f e out m b c) (files w)
                     = (Closed (Some 0) so se, fs) \<and> fs out \<noteq> None))
   \<and> (run pf (YT_DLP_PATH pf) (download_args u f e out m b c) (files w)
          = (Closed code so1 se1, fs1) \<and> code \<noteq> Some 0 \<longrightarrow>
        fst (downloadVideo pf u f e out m b c w) = Inl (Error (''Download failed: '' @ se1)))
   \<and> (run pf (YT_DLP_PATH pf) (download_args u f e out m b c) (files w)
          = (Closed (Some 0) so2 se2, fs2) \<and> fs2 out = None \<longrightarrow>
        fst (downloadVideo pf u f e out m b c w) = Inl (Error ''Downloaded file not found''))"
  by (auto simp: downloadVideo_def spawn_def split: prod.splits proc_exit.splits)

theorem downloadVideo_resolves_iff_exit0_and_file_witness:
  "run pf_ok (YT_DLP_PATH pf_ok)
       (download_args ''https://www.youtube.com/watch?v=abc'' ''best'' ''mp4'' ''/tmp/x.mp4''
          ''video'' ''192'' ''mp4'') (files demo_world)
     = (Closed (Some 0) [] [], [''/tmp/x.mp4'' \<mapsto> 1000])
   \<and> fst (downloadVideo pf_ok ''https://www.youtube.com/watch?v=abc'' ''best'' ''mp4''
            ''/tmp/x.mp4'' ''video'' ''192'' ''mp4'' demo_world) = Inr ()
   \<and> run pf_download_fails (YT_DLP_PATH pf_download_fails)
       (download_args ''https://www.youtube.com/watch?v=abc'' ''best'' ''mp4'' ''/tmp/x.mp4''
          ''video'' ''192'' ''mp4'') (files demo_world)
     = (Closed (Some 1) [] ''ERROR: HTTP 403'', Map.empty)
   \<and> fst (downloadVideo pf_download_fails ''https://www.youtube.com/watch?v=abc'' ''best''
            ''mp4'' ''/tmp/x.mp4'' ''video'' ''192'' ''mp4'' demo_world)
     = Inl (Error ''Download failed: ERROR: HTTP 403'')
   \<and> run pf_download_writes_nothing (YT_DLP_PATH pf_download_writes_nothing)
       (download_args ''https://www.youtube.com/watch?v=abc'' ''best'' ''mp4'' ''/tmp/x.mp4''
          ''video'' ''192'' ''mp4'') (files demo_world)
     = (Closed (Some 0) [] [], Map.empty)
   \<and> fst (downloadVideo pf_download_writes_nothing ''https://www.youtube.com/watch?v=abc''
            ''best'' ''mp4'' ''/tmp/x.mp4'' ''video'' ''192'' ''mp4'' demo_world)
     = Inl (Error ''Downloaded file not found'')"
proof -
  have a1: "run pf_ok (YT_DLP_PATH pf_ok)
       (download_args ''https://www.youtube.com/watch?v=abc'' ''best'' ''mp4'' ''/tmp/x.mp4''
          ''video'' ''192'' ''mp4'') (files demo_world)
     = (Closed (Some 0) [] [], [''/tmp/x.mp4'' \<mapsto> 1000])"
    by (simp add: fx YT_DLP_PATH_def env_or_def download_args_def)
  have a2: "run pf_download_fails (YT_DLP_PATH pf_download_fails)
       (download_args ''https://www.youtube.com/watch?v=abc'' ''best'' ''mp4'' ''/tmp/x.mp4''
          ''video'' ''192'' ''mp4'') (files demo_world)
     = (Closed (Some 1) [] ''ERROR: HTTP 403'', Map.empty)"
    by (simp add: fx YT_DLP_PATH_def env_or_def download_args_def)
  have a3: "run pf_download_writes_nothing (YT_DLP_PATH pf_download_writes_nothing)
       (download_args ''https://www.youtube.com/watch?v=abc'' ''best'' ''mp4'' ''/tmp/x.mp4''
          ''video'' ''192'' ''mp4'') (files demo_world)
     = (Closed (Some 0) [] [], Map.empty)"
    by (simp add: fx YT_DLP_PATH_def env_or_def download_args_def)
  have c1: "fst (downloadVideo pf_ok ''https://www.youtube.com/watch?v=abc'' ''best'' ''mp4''
            ''/tmp/x.mp4'' ''video'' ''192'' ''mp4'' demo_world) = Inr ()"
    using downloadVideo_resolves_iff_exit0_and_file
      [of pf_ok "''https://www.youtube.com/watch?v=abc''" "''best''" "''mp4''" "''/tmp/x.mp4''"
         "''video''" "''192''" "''mp4''" demo_world] a1
    by simp
  have c2: "fst (downloadVideo pf_download_fails ''https://www.youtube.com/watch?v=abc'' ''best''
            ''mp4'' ''/tmp/x.mp4'' ''video'' ''192'' ''mp4'' demo_world)
     = Inl (Error ''Download failed: ERROR: HTTP 403'')"
    using downloadVideo_resolves_iff_exit0_and_file
      [of pf_download_fails "''https://www.youtube.com/watch?v=abc''" "''best''" "''mp4''"
         "''/tmp/x.mp4''" "''video''" "''192''" "''mp4''" demo_world "Some 1" "[]"
         "''ERROR: HTTP 403''" Map.empty] a2
    by simp
  have c3: "fst (downloadVideo pf_download_writes_nothing ''https://www.youtube.com/watch?v=abc''
            ''best'' ''mp4'' ''/tmp/x.mp4'' ''video'' ''192'' ''mp4'' demo_world)
     = Inl (Error ''Downloaded file not found'')"
    using downloadVideo_resolves_iff_exit0_and_file
      [of pf_download_writes_nothing "''https://www.youtube.com/watch?v=abc''" "''best''"
         "''mp4''" "''/tmp/x.mp4''" "''video''" "''192''" "''mp4''" demo_world _ _ _ _
         "[]" "[]" Map.empty] a3
    by simp
  from a1 c1 a2 c2 a3 c3 show ?thesis by blast
qed

text \<open>
  Claim C5. \<^verbatim>\<open>getVideoInfo\<close> resolves, to the record of the six metadata fields, only when
  the info tool closes with exit code 0 and its standard output parses (to a value whose
  properties can be read); a close with any other code and unparseable output are both
  rejected; \<^verbatim>\<open>/info\<close> answers a rejected fetch with status 500, and answers 400 only when
  the URL was rejected.
\<close>

theorem getVideoInfo_resolves_only_on_exit0_and_parse:
  "(getVideoInfo pf u w = (Inr info, w1) \<longrightarrow>
      (\<exists>so se fs j. run pf (YT_DLP_PATH pf) [''--dump-json'', ''--no-warnings'', u] (files w)
                       = (Closed (Some 0) so se, fs)
                   \<and> json_parse pf so = Some j \<and> j \<noteq> JNull
                   \<and> info = \<lparr>info_id = get_prop j ''id'', info_title = get_prop j ''title'',
                             info_duration = get_prop j ''duration'',
                             info_thumbnail = get_prop j ''thumbnail'',
                             info_uploader = get_prop j ''uploader'',
                             info_upload_date = get_prop j ''upload_date''\<rparr>))
   \<and> (run pf (YT_DLP_PATH pf) [''--dump-json'', ''--no-warnings'', u] (files w)
          = (Closed code so1 se1, fs1) \<and> code \<noteq> Some 0 \<longrightarrow>
        fst (getVideoInfo pf u w) = Inl (Error (''Failed to fetch video info: '' @ se1)))
   \<and> (run pf (YT_DLP_PATH pf) [''--dump-json'', ''--no-warnings'', u] (files w)
          = (Closed (Some 0) so2 se2, fs2) \<and> json_parse pf so2 = None \<longrightarrow>
        fst (getVideoInfo pf u w) = Inl (Error ''Failed to parse video info''))
   \<and> (u \<noteq> [] \<and> isValidYouTubeUrl pf u \<and> fst (getVideoInfo pf u w) = Inl e \<longrightarrow>
        fst (info_handler pf (Some u) w) = ErrorReply 500 (message pf e))
   \<and> (fst (info_handler pf v w) = ErrorReply 400 msg \<longrightarrow> url_rejected pf v)"
  using getVideoInfo_resolved [of pf u w info w1]
    getVideoInfo_nonzero_exit [of pf u w code so1 se1 fs1]
    getVideoInfo_unparseable [of pf u w so2 se2 fs2]
    info_handler_500 [of u pf w e] info_handler_400 [of pf v w msg]
  by blast

theorem getVideoInfo_resolves_only_on_exit0_and_parse_witness:
  "getVideoInfo pf_ok ''https://www.youtube.com/watch?v=abc'' demo_world
     = (Inr \<lparr>info_id = None, info_title = Some (JStr ''My Video''),
             info_duration = Some (JNum 120), info_thumbnail = None,
             info_uploader = None, info_upload_date = None\<rparr>,
        \<lparr>files = Map.empty,
         spawned = [(''yt-dlp'', [''--dump-json'', ''--no-warnings'',
                                 ''https://www.youtube.com/watch?v=abc''])]\<rparr>)
   \<and> (\<exists>so se fs j.
         run pf_ok (YT_DLP_PATH pf_ok)
           [''--dump-json'', ''--no-warnings'', ''https://www.youtube.com/watch?v=abc'']
           (files demo_world) = (Closed (Some 0) so se, fs)
         \<and> json_parse pf_ok so = Some j \<and> j \<noteq> JNull)
   \<and> run pf_info_fails (YT_DLP_PATH pf_info_fails)
         [''--dump-json'', ''--no-warnings'', ''https://www.youtube.com/watch?v=abc'']
         (files demo_world) = (Closed (Some 1) [] ''ERROR: Video unavailable'', Map.empty)
   \<and> fst (getVideoInfo pf_info_fails ''https://www.youtube.com/watch?v=abc'' demo_world)
       = Inl (Error ''Failed to fetch video info: ERROR: Video unavailable'')
   \<and> isValidYouTubeUrl pf_info_fails ''https://www.youtube.com/watch?v=abc''
   \<and> fst (info_handler pf_info_fails (Some ''https://www.youtube.com/watch?v=abc'') demo_world)
       = ErrorReply 500 ''Failed to fetch video info: ERROR: Video unavailable''
   \<and> run pf_info_garbled (YT_DLP_PATH pf_info_garbled)
         [''--dump-json'', ''--no-warnings'', ''https://www.youtube.com/watch?v=abc'']
         (files demo_world) = (Closed (Some 0) ''<html>'' [], Map.empty)
   \<and> json_parse pf_info_garbled ''<html>'' = None
   \<and> fst (getVideoInfo pf_info_garbled ''https://www.youtube.com/watch?v=abc'' demo_world)
       = Inl (Error ''Failed to parse video info'')
   \<and> fst (info_handler pf_ok (Some ''not a url'') demo_world)
       = ErrorReply 400 ''Invalid YouTube URL''
   \<and> url_rejected pf_ok (Some ''not a url'')"
proof -
  have a1: "getVideoInfo pf_ok ''https://www.youtube.com/watch?v=abc'' demo_world
     = (Inr \<lparr>info_id = None, info_title = Some (JStr ''My Video''),
             info_duration = Some (JNum 120), info_thumbnail = None,
             info_uploader = None, info_upload_date = None\<rparr>,
        \<lparr>files = Map.empty,
         spawned = [(''yt-dlp'', [''--dump-json'', ''--no-warnings'',
                                 ''https://www.youtube.com/watch?v=abc''])]\<rparr>)"
    by (simp add: getVideoInfo_def spawn_def fx YT_DLP_PATH_def env_or_def)
  have a2: "run pf_info_fails (YT_DLP_PATH pf_info_fails)
         [''--dump-json'', ''--no-warnings'', ''https://www.youtube.com/watch?v=abc'']
         (files demo_world) = (Closed (Some 1) [] ''ERROR: Video unavailable'', Map.empty)"
    by (simp add: fx YT_DLP_PATH_def env_or_def)
  have a3: "run pf_info_garbled (YT_DLP_PATH pf_info_garbled)
         [''--dump-json'', ''--no-warnings'', ''https://www.youtube.com/watch?v=abc'']
         (files demo_world) = (Closed (Some 0) ''<html>'' [], Map.empty)
       \<and> json_parse pf_info_garbled ''<html>'' = None"
    by (simp add: fx YT_DLP_PATH_def env_or_def)
  have a4: "isValidYouTubeUrl pf_info_fails ''https://www.youtube.com/watch?v=abc''"
    by (simp add: isValidYouTubeUrl_def youtube_pattern_test_def fx)
  have a5: "fst (info_handler pf_ok (Some ''not a url'') demo_world)
       = ErrorReply 400 ''Invalid YouTube URL''"
    by (simp add: info_handler_def url_rejected_def isValidYouTubeUrl_def fx)
  have c1: "\<exists>so se fs j.
         run pf_ok (YT_DLP_PATH pf_ok)
           [''--dump-json'', ''--no-warnings'', ''https://www.youtube.com/watch?v=abc'']
           (files demo_world) = (Closed (Some 0) so se, fs)
         \<and> json_parse pf_ok so = Some j \<and> j \<noteq> JNull"
    using getVideoInfo_resolves_only_on_exit0_and_parse
      [of pf_ok "''https://www.youtube.com/watch?v=abc''" demo_world] a1
    by blast
  have c2: "fst (getVideoInfo pf_info_fails ''https://www.youtube.com/watch?v=abc'' demo_world)
       = Inl (Error ''Failed to fetch video info: ERROR: Video unavailable'')"
    using getVideoInfo_resolves_only_on_exit0_and_parse
      [of pf_info_fails "''https://www.youtube.com/watch?v=abc''" demo_world _ _
         "Some 1" "[]" "''ERROR: Video unavailable''" Map.empty] a2
    by simp
  have c4: "fst (info_handler pf_info_fails (Some ''https://www.youtube.com/watch?v=abc'')
                  demo_world)
       = ErrorReply 500 ''Failed to fetch video info: ERROR: Video unavailable''"
    using getVideoInfo_resolves_only_on_exit0_and_parse
      [of pf_info_fails "''https://www.youtube.com/watch?v=abc''" demo_world _ _ _ _ _ _ _ _ _
         "Error ''Failed to fetch video info: ERROR: Video unavailable''"] a4 c2
    by (simp add: message_def)
  have c3: "fst (getVideoInfo pf_info_garbled ''https://www.youtube.com/watch?v=abc'' demo_world)
       = Inl (Error ''Failed to parse video info'')"
    using getVideoInfo_resolves_only_on_exit0_and_parse
      [of pf_info_garbled "''https://www.youtube.com/watch?v=abc''" demo_world _ _ _ _ _ _
         "''<html>''" "[]" Map.empty] a3
    by simp
  have c5: "url_rejected pf_ok (Some ''not a url'')"
    using getVideoInfo_resolves_only_on_exit0_and_parse
      [of pf_ok _ demo_world _ _ _ _ _ _ _ _ _ _ "Some ''not a url''" "''Invalid YouTube URL''"]
      a5
    by blast
  from a1 c1 a2 c2 a4 c4 a3 c3 a5 c5 show ?thesis by blast
qed

text \<open>
  Claim C6. When a \<^verbatim>\<open>/download\<close> request with \<^verbatim>\<open>mode=audio\<close> and \<^verbatim>\<open>container=mp3\<close> is
  delivered (the headers are sent and the file is streamed), the \<^verbatim>\<open>Content-Type\<close> header
  is \<^verbatim>\<open>audio/mpeg\<close> and the extension chosen is \<^verbatim>\<open>mp3\<close>: the delivered file is the temp
  file or the trimmed file with that extension, and the download tool was called with it.
\<close>

theorem audio_mp3_content_type:
  assumes "fst (download_handler pf q w) = FileReply hs f
           \<or> fst (download_handler pf q w) = BrokenReply hs f"
    and "q_mode q = Some ''audio''" and "q_container q = Some ''mp3''"
  shows "map_of hs ''Content-Type'' = Some (HStr ''audio/mpeg'')
         \<and> (f = tempFile pf ''mp3'' \<or> f = trimmedFile pf ''mp3'')
         \<and> (\<exists>u. q_url q = Some u
               \<and> (YT_DLP_PATH pf,
                   download_args u ''bestaudio'' ''mp3'' (tempFile pf ''mp3'') ''audio''
                     (dflt ''192'' (q_bitrate q)) ''mp3'')
                 \<in> set (spawned (snd (download_handler pf q w))))"
proof -
  from delivered_request [OF assms(1)] obtain u info w1 title fmt ext fn w2 fn' w3 sz where
    u: "q_url q = Some u"
    and b: "build_format pf (dflt ''video'' (q_mode q)) (dflt ''720p'' (q_quality q))
              (dflt ''mp4'' (q_container q)) (dflt ''192'' (q_bitrate q)) title = (fmt, ext, fn)"
    and d: "downloadVideo pf u fmt ext (tempFile pf ext) (dflt ''video'' (q_mode q))
              (dflt ''192'' (q_bitrate q)) (dflt ''mp4'' (q_container q)) w1 = (Inr (), w2)"
    and t: "trim_stage pf ext fn (q_start q) (q_end q) w2 = (Inr (f, fn'), w3)"
    and hs: "hs = response_headers (dflt ''video'' (q_mode q)) ext fn' sz"
    and w: "snd (download_handler pf q w) = unlink pf f w3
            \<or> fst (download_handler pf q w) = BrokenReply hs f
                \<and> snd (download_handler pf q w) = w3"
    by blast
  have m: "dflt ''video'' (q_mode q) = ''audio''" and c: "dflt ''mp4'' (q_container q) = ''mp3''"
    using assms(2,3) by (simp_all add: dflt_def)
  from b m c have e: "ext = ''mp3''" and fm: "fmt = ''bestaudio''"
    by (simp_all add: build_format_def Let_def)
  have ct: "map_of hs ''Content-Type'' = Some (HStr ''audio/mpeg'')"
    by (simp add: hs m e response_headers_def content_type_def)
  have ff: "f = tempFile pf ''mp3'' \<or> f = trimmedFile pf ''mp3''"
    using trim_stage_Inr [OF t] e by auto
  have "spawned w2 = spawned w1 @ [(YT_DLP_PATH pf,
          download_args u ''bestaudio'' ''mp3'' (tempFile pf ''mp3'') ''audio''
            (dflt ''192'' (q_bitrate q)) ''mp3'')]"
    using downloadVideo_spawnedD [OF d] by (simp add: m c e fm)
  moreover have "\<exists>rest. spawned w3 = spawned w2 @ rest"
    using trim_stage_spawnedD [OF t] by simp
  moreover have "spawned (snd (download_handler pf q w)) = spawned w3"
    using w by (auto simp: unlink_spawned)
  ultimately have "(YT_DLP_PATH pf,
          download_args u ''bestaudio'' ''mp3'' (tempFile pf ''mp3'') ''audio''
            (dflt ''192'' (q_bitrate q)) ''mp3'') \<in> set (spawned (snd (download_handler pf q w)))"
    by auto
  with u ct ff show ?thesis by blast
qed
theorem audio_mp3_content_type_witness:
  "fst (download_handler pf_ok (demo_query\<lparr>q_mode := Some ''audio'', q_container := Some ''mp3''\<rparr>)
         demo_world)
     = FileReply
         [(''Content-Type'', HStr ''audio/mpeg''),
          (''Content-Length'', HNum 1000),
          (''Content-Disposition'',
           HStr (''attachment; filename='' @ [CHR 0x22] @ ''My Video_192kbps.mp3'' @ [CHR 0x22])),
          (''Cache-Control'', HStr ''no-cache'')]
         ''/tmp/ytdl_1700000000000_k3j9x.mp3''
   \<and> q_mode (demo_query\<lparr>q_mode := Some ''audio'', q_container := Some ''mp3''\<rparr>) = Some ''audio''
   \<and> q_container (demo_query\<lparr>q_mode := Some ''audio'', q_container := Some ''mp3''\<rparr>)
       = Some ''mp3''
   \<and> map_of
         [(''Content-Type'', HStr ''audio/mpeg''),
          (''Content-Length'', HNum 1000),
          (''Content-Disposition'',
           HStr (''attachment; filename='' @ [CHR 0x22] @ ''My Video_192kbps.mp3'' @ [CHR 0x22])),
          (''Cache-Control'', HStr ''no-cache'')] ''Content-Type''
       = Some (HStr ''audio/mpeg'')
   \<and> (''/tmp/ytdl_1700000000000_k3j9x.mp3'' = tempFile pf_ok ''mp3''
        \<or> ''/tmp/ytdl_1700000000000_k3j9x.mp3'' = trimmedFile pf_ok ''mp3'')"
proof -
  have a1: "fst (download_handler pf_ok
                  (demo_query\<lparr>q_mode := Some ''audio'', q_container := Some ''mp3''\<rparr>) demo_world)
     = FileReply
         [(''Content-Type'', HStr ''audio/mpeg''),
          (''Content-Length'', HNum 1000),
          (''Content-Disposition'',
           HStr (''attachment; filename='' @ [CHR 0x22] @ ''My Video_192kbps.mp3'' @ [CHR 0x22])),
          (''Cache-Control'', HStr ''no-cache'')]
         ''/tmp/ytdl_1700000000000_k3j9x.mp3''"
    by code_simp
  have a2: "q_mode (demo_query\<lparr>q_mode := Some ''audio'', q_container := Some ''mp3''\<rparr>)
              = Some ''audio''"
    by simp
  have a3: "q_container (demo_query\<lparr>q_mode := Some ''audio'', q_container := Some ''mp3''\<rparr>)
              = Some ''mp3''"
    by simp
  note c = audio_mp3_content_type [OF disjI1 [OF a1] a2 a3]
  from a1 a2 a3 c show ?thesis by blast
qed




text \<open>
  Claim C8. The pattern is not anchored: a URL whose host name contains \<^verbatim>\<open>youtube.com\<close> or
  \<^verbatim>\<open>youtu.be\<close> anywhere is accepted by \<^verbatim>\<open>isValidYouTubeUrl\<close>. The host
  \<^verbatim>\<open>fake-youtube.com.evil.example\<close> matches, and a request for a URL with that host goes on
  to spawn the info tool, on \<^verbatim>\<open>/info\<close> and (with a valid mode) on \<^verbatim>\<open>/download\<close>.
\<close>

theorem unanchored_pattern_accepts_foreign_host:
  "(url_hostname pf u1 = Some (xs1 @ ''youtube.com'' @ ys1) \<longrightarrow> isValidYouTubeUrl pf u1)
   \<and> (url_hostname pf u2 = Some (xs2 @ ''youtu.be'' @ ys2) \<longrightarrow> isValidYouTubeUrl pf u2)
   \<and> youtube_pattern_test ''fake-youtube.com.evil.example''
   \<and> (u3 \<noteq> [] \<and> url_hostname pf u3 = Some ''fake-youtube.com.evil.example'' \<longrightarrow>
        isValidYouTubeUrl pf u3
        \<and> spawned (snd (info_handler pf (Some u3) w))
            = spawned w @ [(YT_DLP_PATH pf, [''--dump-json'', ''--no-warnings'', u3])]
        \<and> (q_url q = Some u3
             \<and> (dflt ''video'' (q_mode q) = ''video'' \<or> dflt ''video'' (q_mode q) = ''audio'')
            \<longrightarrow> (\<exists>rest. spawned (snd (download_handler pf q w))
                   = spawned w @ (YT_DLP_PATH pf, [''--dump-json'', ''--no-warnings'', u3]) # rest)))"
proof -
  have p1: "youtube_pattern_test (xs1 @ ''youtube.com'' @ ys1)"
    unfolding youtube_pattern_test_def literal_search_iff by blast
  have p2: "youtube_pattern_test (xs2 @ ''youtu.be'' @ ys2)"
    unfolding youtube_pattern_test_def literal_search_iff by blast
  have p3: "youtube_pattern_test ''fake-youtube.com.evil.example''"
    by code_simp
  have i: "spawned (snd (info_handler pf (Some u3) w))
            = spawned w @ [(YT_DLP_PATH pf, [''--dump-json'', ''--no-warnings'', u3])]"
    if "u3 \<noteq> []" and "isValidYouTubeUrl pf u3"
    using that getVideoInfo_spawned [of pf u3 w]
    by (cases "getVideoInfo pf u3 w")
       (auto simp: info_handler_def url_rejected_def split: sum.splits)
  have d: "\<exists>rest. spawned (snd (download_handler pf q w))
                   = spawned w @ (YT_DLP_PATH pf, [''--dump-json'', ''--no-warnings'', u3]) # rest"
    if "u3 \<noteq> []" and "isValidYouTubeUrl pf u3" and "q_url q = Some u3"
      and "dflt ''video'' (q_mode q) = ''video'' \<or> dflt ''video'' (q_mode q) = ''audio''"
  proof -
    have "snd (download_handler pf q w) = snd (download_body pf q w)"
      using that
      by (auto simp: download_handler_def url_rejected_def split: prod.splits sum.splits)
    then show ?thesis
      using download_body_spawned_prefix [of pf q w] that(3) by simp
  qed
  show ?thesis
    using p1 p2 p3 i d by (auto simp: isValidYouTubeUrl_def)
qed
theorem unanchored_pattern_accepts_foreign_host_witness:
  "url_hostname pf_ok ''https://www.youtube.com/watch?v=abc'' = Some (''www.'' @ ''youtube.com'' @ [])
   \<and> isValidYouTubeUrl pf_ok ''https://www.youtube.com/watch?v=abc''
   \<and> url_hostname pf_ok ''https://youtu.be/abc'' = Some ([] @ ''youtu.be'' @ [])
   \<and> isValidYouTubeUrl pf_ok ''https://youtu.be/abc''
   \<and> url_hostname pf_ok ''https://fake-youtube.com.evil.example/watch''
       = Some ''fake-youtube.com.evil.example''
   \<and> isValidYouTubeUrl pf_ok ''https://fake-youtube.com.evil.example/watch''
   \<and> spawned (snd (info_handler pf_ok (Some ''https://fake-youtube.com.evil.example/watch'')
                     demo_world))
       = [(''yt-dlp'', [''--dump-json'', ''--no-warnings'',
                       ''https://fake-youtube.com.evil.example/watch''])]
   \<and> q_url (demo_query\<lparr>q_url := Some ''https://fake-youtube.com.evil.example/watch''\<rparr>)
       = Some ''https://fake-youtube.com.evil.example/watch''
   \<and> dflt ''video''
         (q_mode (demo_query\<lparr>q_url := Some ''https://fake-youtube.com.evil.example/watch''\<rparr>))
       = ''video''
   \<and> (\<exists>rest. spawned (snd (download_handler pf_ok
           (demo_query\<lparr>q_url := Some ''https://fake-youtube.com.evil.example/watch''\<rparr>) demo_world))
        = (''yt-dlp'', [''--dump-json'', ''--no-warnings'',
                       ''https://fake-youtube.com.evil.example/watch'']) # rest)"
proof -
  have a1: "url_hostname pf_ok ''https://www.youtube.com/watch?v=abc''
              = Some (''www.'' @ ''youtube.com'' @ [])"
    by (simp add: fx)
  have a2: "url_hostname pf_ok ''https://youtu.be/abc'' = Some ([] @ ''youtu.be'' @ [])"
    by (simp add: fx)
  have a3: "url_hostname pf_ok ''https://fake-youtube.com.evil.example/watch''
              = Some ''fake-youtube.com.evil.example''"
    by (simp add: fx)
  have a3': "''https://fake-youtube.com.evil.example/watch'' \<noteq> []" by simp
  have a4: "q_url (demo_query\<lparr>q_url := Some ''https://fake-youtube.com.evil.example/watch''\<rparr>)
       = Some ''https://fake-youtube.com.evil.example/watch''"
    by simp
  have a5: "dflt ''video''
         (q_mode (demo_query\<lparr>q_url := Some ''https://fake-youtube.com.evil.example/watch''\<rparr>))
       = ''video''"
    by (simp add: dflt_def demo_query_def)
  have y: "YT_DLP_PATH pf_ok = ''yt-dlp''"
    by (simp add: YT_DLP_PATH_def env_or_def fx)
  have s0: "spawned demo_world = []"
    by (simp add: demo_world_def)
  note c = unanchored_pattern_accepts_foreign_host
      [of pf_ok "''https://www.youtube.com/watch?v=abc''" "''www.''" "[]"
          "''https://youtu.be/abc''" "[]" "[]"
          "''https://fake-youtube.com.evil.example/watch''" demo_world
          "demo_query\<lparr>q_url := Some ''https://fake-youtube.com.evil.example/watch''\<rparr>"]
  have c1: "isValidYouTubeUrl pf_ok ''https://www.youtube.com/watch?v=abc''"
    using c a1 by blast
  have c2: "isValidYouTubeUrl pf_ok ''https://youtu.be/abc''"
    using c a2 by blast
  have c3: "isValidYouTubeUrl pf_ok ''https://fake-youtube.com.evil.example/watch''
     \<and> spawned (snd (info_handler pf_ok (Some ''https://fake-youtube.com.evil.example/watch'')
                     demo_world))
       = spawned demo_world @ [(YT_DLP_PATH pf_ok, [''--dump-json'', ''--no-warnings'',
                       ''https://fake-youtube.com.evil.example/watch''])]
     \<and> (\<exists>rest. spawned (snd (download_handler pf_ok
           (demo_query\<lparr>q_url := Some ''https://fake-youtube.com.evil.example/watch''\<rparr>) demo_world))
        = spawned demo_world @ (YT_DLP_PATH pf_ok, [''--dump-json'', ''--no-warnings'',
                       ''https://fake-youtube.com.evil.example/watch'']) # rest)"
    using c a3 a3' a4 a5 by blast
  from a1 c1 a2 c2 a3 c3 a4 a5 show ?thesis
    unfolding y s0 append_Nil by blast
qed

text \<open>
  Claim C9. \<^verbatim>\<open>sanitizeFilename\<close> is claimed to return, for every input, at most 100
  characters from the letters, digits, hyphen, underscore and space, with no white space at
  either end. The function trims before it cuts to 100 characters, so a space that lands on
  position 100 stays at the end: for 99 letters followed by a space and one more letter, the
  result is the 99 letters and the space. (The bound on the length, the character set and
  the absence of leading white space do hold: \<open>sanitizeFilename_length\<close>,
  \<open>sanitizeFilename_chars\<close>, \<open>sanitizeFilename_no_leading_space\<close>.)
\<close>

theorem sanitizeFilename_keeps_trailing_space:
  "sanitizeFilename (replicate 99 (CHR ''a'') @ '' b'') = replicate 99 (CHR ''a'') @ '' ''
   \<and> length (sanitizeFilename (replicate 99 (CHR ''a'') @ '' b'')) = 100
   \<and> is_space (last (sanitizeFilename (replicate 99 (CHR ''a'') @ '' b'')))"
  by code_simp




end
